theory Spec2Isabelle
  imports Main "HOL-Library.Word"
begin

section \<open>Data model (types.ts and the state of the App component)\<close>

text \<open>
  A JavaScript string is a sequence of UTF-16 code units and \<open>.length\<close> counts them,
  so a string is modelled as a list of 16-bit words. \<open>js\<close> writes an ASCII literal.
\<close>

type_synonym jsstring = "16 word list"

definition js :: "string \<Rightarrow> jsstring" where
  "js s = map of_char s"

text \<open>Truthiness of a possibly absent string: \<open>null\<close>, \<open>undefined\<close> and \<open>""\<close> are falsy.\<close>

fun truthy :: "jsstring option \<Rightarrow> bool" where
  "truthy None = False"
| "truthy (Some s) = (s \<noteq> [])"

text \<open>\<open>interface Song\<close> of types.ts.\<close>

record song =
  url :: jsstring
  title :: jsstring
  artist :: jsstring
  thumbnail :: "jsstring option"
  cover :: "jsstring option"

text \<open>
  \<open>interface Playlist\<close>. The ids held in the \<open>playlists\<close> state all come from rows of
  \<open>user_playlists\<close>; they are the row ids of the persistence model below.
\<close>

record playlist =
  pl_id :: nat
  pl_name :: jsstring
  image :: jsstring
  songs :: "song list"

text \<open>
  \<open>interface Profile\<close>, with the two further fields that \<open>fetchData\<close> writes into a
  newly created profile.
\<close>

record profile =
  prof_id :: jsstring
  username :: jsstring
  full_name :: jsstring
  avatar_url :: "jsstring option"
  phone :: jsstring

text \<open>
  The identity provider's user object (typed \<open>any\<close> in the source): the fields the
  component reads.
\<close>

record auth_user =
  uid :: jsstring
  email :: "jsstring option"
  email_confirmed_at :: "jsstring option"
  meta_full_name :: "jsstring option"
  meta_avatar_url :: "jsstring option"

text \<open>
  The \<open>useState\<close> cells of \<open>App\<close> that the modelled handlers read or write, and three
  logs of the effects the handlers have on the outside: the messages passed to
  \<open>alert\<close>, the number of \<open>console.error\<close> calls, and the search terms for which a
  \<open>fetch\<close> was issued (oldest first).
\<close>

record app =
  user :: "auth_user option"
  profile :: "profile option"
  authModalOpen :: bool
  likedSongs :: "song list"
  playlists :: "playlist list"
  searchQuery :: jsstring
  searchResults :: "song list"
  isSearching :: bool
  currentSong :: "song option"
  isPlaying :: bool
  playlistQueue :: "song list"
  alerts :: "jsstring list"
  console_errors :: nat
  requests :: "jsstring list"

section \<open>Playback: \<open>handleEnded\<close>\<close>

text \<open>\<open>Array.prototype.findIndex\<close>; \<open>None\<close> stands for the result \<open>-1\<close>.\<close>

fun findIndex :: "('a \<Rightarrow> bool) \<Rightarrow> 'a list \<Rightarrow> nat option" where
  "findIndex P [] = None"
| "findIndex P (x # xs) = (if P x then Some 0 else map_option Suc (findIndex P xs))"

text \<open>
  \<open>handleEnded\<close> (the \<open>onEnded\<close> callback of the audio element, also bound to the
  forward button).
\<close>

definition handleEnded :: "app \<Rightarrow> app" where
  "handleEnded s =
     (case currentSong s of
        None \<Rightarrow> s
      | Some c \<Rightarrow>
          (case findIndex (\<lambda>x. url x = url c) (playlistQueue s) of
             None \<Rightarrow> s\<lparr>isPlaying := False\<rparr>
           | Some currentIndex \<Rightarrow>
               if int currentIndex < int (length (playlistQueue s)) - 1
               then s\<lparr>currentSong := Some (playlistQueue s ! (currentIndex + 1))\<rparr>
               else s\<lparr>isPlaying := False\<rparr>))"

section \<open>Search: \<open>performSearch\<close> and the \<open>onChange\<close> handler of the search input\<close>

text \<open>An element of \<open>data.songs\<close> in the reply of the catalog endpoint.\<close>

record api_song =
  a_url :: jsstring
  a_title :: jsstring
  a_artist :: jsstring
  a_thumbnail :: "jsstring option"

text \<open>The object literal built inside \<open>data.songs.map\<close>.\<close>

definition mapSong :: "api_song \<Rightarrow> song" where
  "mapSong s = \<lparr>url = a_url s, title = a_title s, artist = a_artist s,
                thumbnail = None, cover = a_thumbnail s\<rparr>"

text \<open>
  How the \<open>try\<close> block of \<open>performSearch\<close> can end: something in it throws (the fetch
  is rejected, the body is not JSON), or \<open>data\<close> arrives, with \<open>data.songs\<close> falsy
  (\<open>None\<close>) or an array.
\<close>

datatype fetch_result = FetchFailed | Json "api_song list option"

text \<open>
  \<open>encodeURIComponent\<close> throws a \<open>URIError\<close> on a string with a surrogate code unit
  that is not part of a pair; \<open>wellFormed\<close> holds for the strings it accepts.
\<close>

definition isHighSurrogate :: "16 word \<Rightarrow> bool" where
  "isHighSurrogate c = (55296 \<le> c \<and> c \<le> 56319)"

definition isLowSurrogate :: "16 word \<Rightarrow> bool" where
  "isLowSurrogate c = (56320 \<le> c \<and> c \<le> 57343)"

fun wellFormed :: "jsstring \<Rightarrow> bool" where
  "wellFormed [] = True"
| "wellFormed [c] = (\<not> isHighSurrogate c \<and> \<not> isLowSurrogate c)"
| "wellFormed (c # c' # cs) =
     (if isHighSurrogate c then isLowSurrogate c' \<and> wellFormed cs
      else \<not> isLowSurrogate c \<and> wellFormed (c' # cs))"

text \<open>
  \<open>performSearch\<close> up to its first \<open>await\<close>: the flag is set and the request is issued.
  When \<open>encodeURIComponent\<close> throws, no request is issued and the function runs to its
  end through \<open>catch\<close> and \<open>finally\<close>.
\<close>

definition performSearch_start :: "jsstring \<Rightarrow> app \<Rightarrow> app" where
  "performSearch_start term s =
     (if wellFormed term
      then s\<lparr>isSearching := True, requests := requests s @ [term]\<rparr>
      else s\<lparr>console_errors := Suc (console_errors s), isSearching := False\<rparr>)"

text \<open>The rest of \<open>performSearch\<close>, run when the awaited reply is there.\<close>

definition performSearch_settle :: "fetch_result \<Rightarrow> app \<Rightarrow> app" where
  "performSearch_settle r s =
     (case r of
        Json (Some sgs) \<Rightarrow> s\<lparr>searchResults := map mapSong sgs, isSearching := False\<rparr>
      | Json None \<Rightarrow> s\<lparr>searchResults := [], isSearching := False\<rparr>
      | FetchFailed \<Rightarrow> s\<lparr>console_errors := Suc (console_errors s), isSearching := False\<rparr>)"

text \<open>A search whose reply arrives before anything else happens.\<close>

definition performSearch :: "fetch_result \<Rightarrow> jsstring \<Rightarrow> app \<Rightarrow> app" where
  "performSearch r term s =
     (if wellFormed term then performSearch_settle r (performSearch_start term s)
      else performSearch_start term s)"

text \<open>The \<open>onChange\<close> handler of the search input, with \<open>v = e.target.value\<close>.\<close>

definition onChange :: "jsstring \<Rightarrow> app \<Rightarrow> app" where
  "onChange v s =
     (let s1 = s\<lparr>searchQuery := v\<rparr>
      in if length v > 2 then performSearch_start v s1 else s1)"

text \<open>
  What happens to the search view over time: the user changes the input, or the reply
  to an issued request arrives. \<open>Response k r\<close> is the reply to the request at
  position \<open>k\<close> of \<open>requests\<close> (its dispatch sequence number); the source keeps no such
  number, and the continuation of \<open>performSearch\<close> runs on every reply.
\<close>

datatype event = Change jsstring | Response nat fetch_result

fun step :: "event \<Rightarrow> app \<Rightarrow> app" where
  "step (Change v) s = onChange v s"
| "step (Response k r) s = performSearch_settle r s"

definition run :: "event list \<Rightarrow> app \<Rightarrow> app" where
  "run evs s = foldl (\<lambda>st e. step e st) s evs"

section \<open>Persistence: the tables and \<open>dbService\<close>\<close>

text \<open>
  The tables behind the Supabase client, as far as \<open>dbService\<close> reads and writes them.
  Row ids are assigned by the store on insertion, in increasing order.
\<close>

record liked_row =
  lr_id :: nat
  lr_user :: jsstring
  lr_song :: song

record playlist_row =
  pr_id :: nat
  pr_user :: jsstring
  pr_name :: jsstring
  pr_image :: "jsstring option"

record playlist_song_row =
  ps_id :: nat
  ps_playlist :: nat
  ps_song :: song

record db =
  tbl_profiles :: "profile list"
  tbl_liked_songs :: "liked_row list"
  tbl_user_playlists :: "playlist_row list"
  tbl_playlist_songs :: "playlist_song_row list"

definition fresh_id :: "nat list \<Rightarrow> nat" where
  "fresh_id ids = Suc (fold max ids 0)"

text \<open>
  The outcome of one request to the store. The client does not throw: on \<open>NetErr\<close> the
  object it resolves to carries \<open>error\<close> and no data, and the store is unchanged.
\<close>

datatype net = NetOk | NetErr

text \<open>What a \<open>dbService\<close> function throws: the \<open>error\<close> of the reply.\<close>

datatype js_error = PostgrestError

text \<open>
  \<open>.single()\<close>: the row when exactly one row matches; otherwise \<open>data\<close> is \<open>null\<close> (and
  \<open>error\<close> has the code \<open>PGRST116\<close>).
\<close>

fun single :: "'a list \<Rightarrow> 'a option" where
  "single [x] = Some x"
| "single xs = None"

definition getProfile :: "net \<Rightarrow> jsstring \<Rightarrow> db \<Rightarrow> js_error + profile option" where
  "getProfile n userId d =
     (case n of
        NetErr \<Rightarrow> Inl PostgrestError
      | NetOk \<Rightarrow> Inr (single (filter (\<lambda>p. prof_id p = userId) (tbl_profiles d))))"

definition upsertProfile :: "net \<Rightarrow> profile \<Rightarrow> db \<Rightarrow> js_error + db" where
  "upsertProfile n p d =
     (case n of
        NetErr \<Rightarrow> Inl PostgrestError
      | NetOk \<Rightarrow>
          Inr (d\<lparr>tbl_profiles :=
                 (if list_ex (\<lambda>q. prof_id q = prof_id p) (tbl_profiles d)
                  then map (\<lambda>q. if prof_id q = prof_id p then p else q) (tbl_profiles d)
                  else tbl_profiles d @ [p])\<rparr>))"

definition getLikedSongs :: "net \<Rightarrow> jsstring \<Rightarrow> db \<Rightarrow> js_error + song list" where
  "getLikedSongs n userId d =
     (case n of
        NetErr \<Rightarrow> Inl PostgrestError
      | NetOk \<Rightarrow>
          Inr (map lr_song
                 (rev (sort_key lr_id (filter (\<lambda>r. lr_user r = userId) (tbl_liked_songs d))))))"

text \<open>
  The rows that the lookup of \<open>toggleLikedSong\<close> selects: those of the user whose
  \<open>song_data\<close> contains \<open>{ url: song.url }\<close>.
\<close>

definition liked_matches :: "jsstring \<Rightarrow> song \<Rightarrow> db \<Rightarrow> liked_row list" where
  "liked_matches userId sg d =
     filter (\<lambda>r. lr_user r = userId \<and> url (lr_song r) = url sg) (tbl_liked_songs d)"

text \<open>
  \<open>toggleLikedSong\<close>: \<open>sel\<close> is the outcome of the lookup and \<open>wr\<close> that of the delete
  or insert. The function reads \<open>data\<close> of the lookup only and ignores \<open>error\<close> of both
  requests, so it returns its boolean whatever the outcomes are.
\<close>

definition toggleLikedSong :: "net \<Rightarrow> net \<Rightarrow> jsstring \<Rightarrow> song \<Rightarrow> db \<Rightarrow> bool \<times> db" where
  "toggleLikedSong sel wr userId sg d =
     (let existing = (case sel of NetErr \<Rightarrow> None | NetOk \<Rightarrow> single (liked_matches userId sg d))
      in case existing of
           Some r \<Rightarrow>
             (False,
              case wr of
                NetErr \<Rightarrow> d
              | NetOk \<Rightarrow> d\<lparr>tbl_liked_songs := filter (\<lambda>x. lr_id x \<noteq> lr_id r) (tbl_liked_songs d)\<rparr>)
         | None \<Rightarrow>
             (True,
              case wr of
                NetErr \<Rightarrow> d
              | NetOk \<Rightarrow>
                  d\<lparr>tbl_liked_songs := tbl_liked_songs d @
                      [\<lparr>lr_id = fresh_id (map lr_id (tbl_liked_songs d)),
                        lr_user = userId, lr_song = sg\<rparr>]\<rparr>))"

definition default_image :: jsstring where
  "default_image = js ''https://cdn.odzre.my.id/77c.jpg''"

definition getPlaylists :: "net \<Rightarrow> jsstring \<Rightarrow> db \<Rightarrow> js_error + playlist list" where
  "getPlaylists n userId d =
     (case n of
        NetErr \<Rightarrow> Inl PostgrestError
      | NetOk \<Rightarrow>
          Inr (map (\<lambda>pl. \<lparr>pl_id = pr_id pl, pl_name = pr_name pl,
                          image = (case pr_image pl of
                                     None \<Rightarrow> default_image
                                   | Some i \<Rightarrow> if i = [] then default_image else i),
                          songs = map ps_song
                            (filter (\<lambda>ps. ps_playlist ps = pr_id pl) (tbl_playlist_songs d))\<rparr>)
                 (filter (\<lambda>pl. pr_user pl = userId) (tbl_user_playlists d))))"

definition createPlaylist ::
  "net \<Rightarrow> jsstring \<Rightarrow> jsstring \<Rightarrow> jsstring \<Rightarrow> db \<Rightarrow> js_error + playlist_row \<times> db" where
  "createPlaylist n userId name img d =
     (case n of
        NetErr \<Rightarrow> Inl PostgrestError
      | NetOk \<Rightarrow>
          (let row = \<lparr>pr_id = fresh_id (map pr_id (tbl_user_playlists d)),
                      pr_user = userId, pr_name = name, pr_image = Some img\<rparr>
           in Inr (row, d\<lparr>tbl_user_playlists := tbl_user_playlists d @ [row]\<rparr>)))"

definition deletePlaylist :: "net \<Rightarrow> nat \<Rightarrow> db \<Rightarrow> js_error + db" where
  "deletePlaylist n playlistId d =
     (case n of
        NetErr \<Rightarrow> Inl PostgrestError
      | NetOk \<Rightarrow>
          Inr (d\<lparr>tbl_user_playlists :=
                 filter (\<lambda>r. pr_id r \<noteq> playlistId) (tbl_user_playlists d)\<rparr>))"

definition addSongToPlaylist :: "net \<Rightarrow> nat \<Rightarrow> song \<Rightarrow> db \<Rightarrow> js_error + db" where
  "addSongToPlaylist n playlistId sg d =
     (case n of
        NetErr \<Rightarrow> Inl PostgrestError
      | NetOk \<Rightarrow>
          Inr (d\<lparr>tbl_playlist_songs := tbl_playlist_songs d @
                 [\<lparr>ps_id = fresh_id (map ps_id (tbl_playlist_songs d)),
                   ps_playlist = playlistId, ps_song = sg\<rparr>]\<rparr>))"

section \<open>Library: the gated handlers of \<open>App\<close>\<close>

text \<open>\<open>isVerified\<close> and \<open>isLiked\<close>, the render helpers.\<close>

definition isVerified :: "app \<Rightarrow> bool" where
  "isVerified s = (case user s of None \<Rightarrow> False | Some u \<Rightarrow> truthy (email_confirmed_at u))"

definition isLiked :: "app \<Rightarrow> song \<Rightarrow> bool" where
  "isLiked s sg = list_ex (\<lambda>x. url x = url sg) (likedSongs s)"

definition msg_verify_like :: jsstring where
  "msg_verify_like = js ''Please verify your email to like songs.''"

definition msg_verify_playlist :: jsstring where
  "msg_verify_playlist = js ''Please verify your email to create playlists.''"

definition msg_create_failed :: jsstring where
  "msg_create_failed = js ''Failed to create playlist''"

text \<open>
  \<open>toggleLike\<close> up to its \<open>await\<close>: the state at that point, and the arguments of the
  call \<open>dbService.toggleLikedSong(user.id, song)\<close> when the two guards let it through.
\<close>

definition toggleLike_begin :: "song \<Rightarrow> app \<Rightarrow> app \<times> (jsstring \<times> song) option" where
  "toggleLike_begin sg s =
     (case user s of
        None \<Rightarrow> (s\<lparr>authModalOpen := True\<rparr>, None)
      | Some u \<Rightarrow>
          if \<not> truthy (email_confirmed_at u)
          then (s\<lparr>alerts := alerts s @ [msg_verify_like]\<rparr>, None)
          else (s, Some (uid u, sg)))"

text \<open>The rest of \<open>toggleLike\<close>, run with the boolean the call resolved to.\<close>

definition toggleLike_resume :: "bool \<Rightarrow> song \<Rightarrow> app \<Rightarrow> app" where
  "toggleLike_resume isAdded sg s =
     (if isAdded
      then s\<lparr>likedSongs := sg # likedSongs s\<rparr>
      else s\<lparr>likedSongs := filter (\<lambda>x. url x \<noteq> url sg) (likedSongs s)\<rparr>)"

text \<open>\<open>toggleLike\<close> from call to completion, on the component's state and the store.\<close>

definition toggleLike :: "net \<Rightarrow> net \<Rightarrow> song \<Rightarrow> app \<times> db \<Rightarrow> app \<times> db" where
  "toggleLike sel wr sg sd =
     (case toggleLike_begin sg (fst sd) of
        (s1, None) \<Rightarrow> (s1, snd sd)
      | (s1, Some (userId, sg')) \<Rightarrow>
          (case toggleLikedSong sel wr userId sg' (snd sd) of
             (isAdded, d') \<Rightarrow> (toggleLike_resume isAdded sg s1, d')))"

text \<open>
  \<open>createNewPlaylist\<close>. \<open>answer\<close> is what \<open>prompt\<close> returns (\<open>None\<close> when the dialog is
  cancelled); it is read only after both guards.
\<close>

definition createNewPlaylist :: "jsstring option \<Rightarrow> net \<Rightarrow> app \<times> db \<Rightarrow> app \<times> db" where
  "createNewPlaylist answer n sd =
     (let s = fst sd; d = snd sd
      in case user s of
           None \<Rightarrow> (s\<lparr>authModalOpen := True\<rparr>, d)
         | Some u \<Rightarrow>
             if \<not> truthy (email_confirmed_at u)
             then (s\<lparr>alerts := alerts s @ [msg_verify_playlist]\<rparr>, d)
             else if \<not> truthy answer then (s, d)
             else (case answer of
                     None \<Rightarrow> (s, d)
                   | Some name \<Rightarrow>
                       (case createPlaylist n (uid u) name default_image d of
                          Inl e \<Rightarrow>
                            (s\<lparr>console_errors := Suc (console_errors s),
                               alerts := alerts s @ [msg_create_failed]\<rparr>, d)
                        | Inr (newPl, d') \<Rightarrow>
                            (s\<lparr>playlists := playlists s @
                                 [\<lparr>pl_id = pr_id newPl, pl_name = pr_name newPl,
                                   image = (case pr_image newPl of None \<Rightarrow> [] | Some i \<Rightarrow> i),
                                   songs = []\<rparr>]\<rparr>, d'))))"

text \<open>
  The library view renders the playlist rows, and with them the delete icons, under
  \<open>isVerified && playlists.map(...)\<close>: the playlists that have a delete icon.
\<close>

definition deleteControls :: "app \<Rightarrow> playlist list" where
  "deleteControls s = (if isVerified s then playlists s else [])"

text \<open>
  The \<open>onClick\<close> handler of the delete icon of playlist \<open>pl\<close>; \<open>confirmed\<close> is the answer
  to \<open>confirm("Delete playlist?")\<close>. When the promise is rejected the \<open>then\<close> callback
  does not run.
\<close>

definition onClickDelete :: "bool \<Rightarrow> net \<Rightarrow> playlist \<Rightarrow> app \<times> db \<Rightarrow> app \<times> db" where
  "onClickDelete confirmed n pl sd =
     (let s = fst sd; d = snd sd
      in if confirmed
         then (case deletePlaylist n (pl_id pl) d of
                 Inl e \<Rightarrow> (s, d)
               | Inr d' \<Rightarrow> (s\<lparr>playlists := filter (\<lambda>p. pl_id p \<noteq> pl_id pl) (playlists s)\<rparr>, d'))
         else (s, d))"

section \<open>Library: \<open>fetchData\<close>\<close>

text \<open>The profile that \<open>fetchData\<close> creates for a user who has none.\<close>

definition newProfile :: "auth_user \<Rightarrow> profile" where
  "newProfile u =
     \<lparr>prof_id = uid u,
      username = (case email u of
                    None \<Rightarrow> js ''User''
                  | Some e \<Rightarrow>
                      if takeWhile (\<lambda>c. c \<noteq> 64) e = [] then js ''User''
                      else takeWhile (\<lambda>c. c \<noteq> 64) e),
      full_name = (case meta_full_name u of None \<Rightarrow> [] | Some f \<Rightarrow> f),
      avatar_url = (if truthy (meta_avatar_url u) then meta_avatar_url u else None),
      phone = []\<rparr>"

text \<open>The \<open>catch\<close> block of \<open>fetchData\<close>.\<close>

definition logSyncFailure :: "app \<Rightarrow> app" where
  "logSyncFailure s = s\<lparr>console_errors := Suc (console_errors s)\<rparr>"

text \<open>
  \<open>fetchData\<close>, with the outcomes of its four requests in the order of the calls. Each
  \<open>set...\<close> call is followed by an \<open>await\<close> or by the end of the function, so the
  component is rendered with each of the states in turn: the result is the list of the
  states the component goes through after the call (the last one is where it stays)
  and the store.
\<close>

definition fetchData ::
  "net \<Rightarrow> net \<Rightarrow> net \<Rightarrow> net \<Rightarrow> auth_user \<Rightarrow> app \<times> db \<Rightarrow> app list \<times> db" where
  "fetchData nProfile nUpsert nLiked nPlaylists currentUser sd =
     (let s = fst sd; d = snd sd; userId = uid currentUser
      in case getProfile nProfile userId d of
           Inl e \<Rightarrow> ([logSyncFailure s], d)
         | Inr found \<Rightarrow>
             (case (case found of
                      Some p \<Rightarrow> Inr (p, d)
                    | None \<Rightarrow>
                        (case upsertProfile nUpsert (newProfile currentUser) d of
                           Inl e \<Rightarrow> Inl e
                         | Inr d' \<Rightarrow> Inr (newProfile currentUser, d'))) of
                Inl e \<Rightarrow> ([logSyncFailure s], d)
              | Inr (prof, d1) \<Rightarrow>
                  (let s1 = s\<lparr>profile := Some prof\<rparr>
                   in case getLikedSongs nLiked userId d1 of
                        Inl e \<Rightarrow> ([s1, logSyncFailure s1], d1)
                      | Inr liked \<Rightarrow>
                          (let s2 = s1\<lparr>likedSongs := liked\<rparr>
                           in case getPlaylists nPlaylists userId d1 of
                                Inl e \<Rightarrow> ([s1, s2, logSyncFailure s2], d1)
                              | Inr pls \<Rightarrow> ([s1, s2, s2\<lparr>playlists := pls\<rparr>], d1)))))"

section \<open>Example values\<close>

definition songA :: song where
  "songA = \<lparr>url = [1], title = [10], artist = [20], thumbnail = None, cover = None\<rparr>"

definition songB :: song where
  "songB = \<lparr>url = [2], title = [11], artist = [21], thumbnail = None, cover = None\<rparr>"

definition songC :: song where
  "songC = \<lparr>url = [3], title = [12], artist = [22], thumbnail = None, cover = None\<rparr>"

definition app0 :: app where
  "app0 = \<lparr>user = None, profile = None, authModalOpen = False, likedSongs = [],
           playlists = [], searchQuery = [], searchResults = [], isSearching = False,
           currentSong = None, isPlaying = False, playlistQueue = [], alerts = [],
           console_errors = 0, requests = []\<rparr>"

definition userV :: auth_user where
  "userV = \<lparr>uid = [117, 49], email = Some [97, 64, 98], email_confirmed_at = Some [50, 48],
            meta_full_name = None, meta_avatar_url = None\<rparr>"

definition userU :: auth_user where
  "userU = \<lparr>uid = [117, 50], email = Some [99, 64, 100], email_confirmed_at = None,
            meta_full_name = None, meta_avatar_url = None\<rparr>"

definition db0 :: db where
  "db0 = \<lparr>tbl_profiles = [], tbl_liked_songs = [], tbl_user_playlists = [],
          tbl_playlist_songs = []\<rparr>"

definition dbAB :: db where
  "dbAB = db0\<lparr>tbl_liked_songs :=
     [\<lparr>lr_id = 1, lr_user = [117, 49], lr_song = songA\<rparr>,
      \<lparr>lr_id = 2, lr_user = [117, 49], lr_song = songB\<rparr>]\<rparr>"

definition plX :: playlist where
  "plX = \<lparr>pl_id = 1, pl_name = [80], image = [73], songs = []\<rparr>"

definition dbX :: db where
  "dbX = db0\<lparr>tbl_user_playlists :=
     [\<lparr>pr_id = 1, pr_user = [117, 49], pr_name = [80], pr_image = Some [73]\<rparr>]\<rparr>"

definition apiA :: api_song where
  "apiA = \<lparr>a_url = [1], a_title = [10], a_artist = [20], a_thumbnail = None\<rparr>"

definition apiB :: api_song where
  "apiB = \<lparr>a_url = [2], a_title = [11], a_artist = [21], a_thumbnail = None\<rparr>"

definition prof1 :: profile where
  "prof1 = \<lparr>prof_id = [117, 49], username = [97], full_name = [], avatar_url = None, phone = []\<rparr>"

definition db1 :: db where
  "db1 = db0\<lparr>tbl_profiles := [prof1],
     tbl_liked_songs := [\<lparr>lr_id = 1, lr_user = [117, 49], lr_song = songA\<rparr>]\<rparr>"

definition dbNoProfile :: db where
  "dbNoProfile = db0\<lparr>tbl_liked_songs :=
     [\<lparr>lr_id = 1, lr_user = [117, 49], lr_song = songA\<rparr>,
      \<lparr>lr_id = 2, lr_user = [117, 49], lr_song = songB\<rparr>]\<rparr>"

definition dbFull :: db where
  "dbFull = db1\<lparr>tbl_user_playlists :=
       [\<lparr>pr_id = 1, pr_user = [117, 49], pr_name = [80], pr_image = Some [73]\<rparr>],
     tbl_playlist_songs := [\<lparr>ps_id = 1, ps_playlist = 1, ps_song = songB\<rparr>]\<rparr>"

section \<open>Properties of \<open>findIndex\<close>\<close>

lemma findIndex_None: "(\<And>x. x \<in> set xs \<Longrightarrow> \<not> P x) \<Longrightarrow> findIndex P xs = None"
  by (induction xs) auto

lemma findIndex_first:
  "i < length xs \<Longrightarrow> P (xs ! i) \<Longrightarrow> (\<And>j. j < i \<Longrightarrow> \<not> P (xs ! j)) \<Longrightarrow> findIndex P xs = Some i"
proof (induction xs arbitrary: i)
  case Nil
  then show ?case by simp
next
  case (Cons x xs)
  show ?case
  proof (cases i)
    case 0
    with Cons.prems show ?thesis by simp
  next
    case (Suc k)
    have "\<not> P x" using Cons.prems(3) [of 0] Suc by simp
    moreover have "findIndex P xs = Some k"
    proof (rule Cons.IH)
      show "k < length xs" using Cons.prems(1) Suc by simp
      show "P (xs ! k)" using Cons.prems(2) Suc by simp
      show "\<not> P (xs ! j)" if "j < k" for j
        using Cons.prems(3) [of "Suc j"] that Suc by simp
    qed
    ultimately show ?thesis using Suc by simp
  qed
qed

section \<open>Queue advancement\<close>

text \<open>
  C10. If the track ends while the url of the current track occurs nowhere in the queue,
  \<open>handleEnded\<close> returns normally, marks playback as not playing and changes nothing
  else: the queue and the current track are as before.
\<close>

theorem handleEnded_url_not_in_queue:
  assumes "currentSong s = Some c"
    and "\<forall>x \<in> set (playlistQueue s). url x \<noteq> url c"
  shows "handleEnded s = s\<lparr>isPlaying := False\<rparr>
    \<and> playlistQueue (handleEnded s) = playlistQueue s
    \<and> currentSong (handleEnded s) = Some c
    \<and> isPlaying (handleEnded s) = False"
proof -
  have "findIndex (\<lambda>x. url x = url c) (playlistQueue s) = None"
    using assms(2) by (intro findIndex_None) simp
  then show ?thesis using assms(1) by (simp add: handleEnded_def)
qed

theorem handleEnded_url_not_in_queue_witness:
  "handleEnded (app0\<lparr>currentSong := Some songC, isPlaying := True, playlistQueue := [songA, songB]\<rparr>)
     = app0\<lparr>currentSong := Some songC, isPlaying := False, playlistQueue := [songA, songB]\<rparr>"
  using handleEnded_url_not_in_queue
    [of "app0\<lparr>currentSong := Some songC, isPlaying := True, playlistQueue := [songA, songB]\<rparr>" songC]
  by (simp add: app0_def songA_def songB_def songC_def)

text \<open>
  C5, as stated, fails when the url of the current track occurs more than once in the
  queue. With the queue \<open>[A, B, A]\<close> and the current track at its last position 2,
  \<open>findIndex\<close> returns the first match 0, so \<open>handleEnded\<close> moves on to \<open>B\<close> instead of
  stopping, and playback stays marked as playing.
\<close>

theorem handleEnded_duplicate_url_counterexample:
  "playlistQueue (app0\<lparr>currentSong := Some songA, isPlaying := True,
        playlistQueue := [songA, songB, songA]\<rparr>) ! 2 = songA
   \<and> int 2 = int (length (playlistQueue (app0\<lparr>currentSong := Some songA, isPlaying := True,
        playlistQueue := [songA, songB, songA]\<rparr>))) - 1
   \<and> handleEnded (app0\<lparr>currentSong := Some songA, isPlaying := True,
        playlistQueue := [songA, songB, songA]\<rparr>)
      = app0\<lparr>currentSong := Some songB, isPlaying := True,
        playlistQueue := [songA, songB, songA]\<rparr>"
  by (simp add: handleEnded_def app0_def songA_def songB_def)

text \<open>
  C5, amended. Let \<open>i\<close> be the first position of the queue whose track has the url of
  the current track (the position \<open>findIndex\<close> locates; it is the position of the current
  track whenever the urls of the queue are distinct). If \<open>i\<close> is not the last position,
  \<open>handleEnded\<close> makes the track at \<open>i + 1\<close> the current one and changes nothing else; if
  \<open>i\<close> is the last position, it marks playback as not playing and changes nothing else.
  The queue is unchanged in both cases.
\<close>

theorem handleEnded_first_occurrence:
  assumes "currentSong s = Some c"
    and "i < length (playlistQueue s)"
    and "url (playlistQueue s ! i) = url c"
    and "\<forall>j < i. url (playlistQueue s ! j) \<noteq> url c"
  shows "handleEnded s =
      (if i < length (playlistQueue s) - 1
       then s\<lparr>currentSong := Some (playlistQueue s ! (i + 1))\<rparr>
       else s\<lparr>isPlaying := False\<rparr>)
    \<and> playlistQueue (handleEnded s) = playlistQueue s"
proof -
  have "findIndex (\<lambda>x. url x = url c) (playlistQueue s) = Some i"
    using assms(2,3,4) by (intro findIndex_first) simp_all
  moreover have "(int i < int (length (playlistQueue s)) - 1) = (i < length (playlistQueue s) - 1)"
    using assms(2) by linarith
  ultimately show ?thesis using assms(1) by (simp add: handleEnded_def)
qed

theorem handleEnded_first_occurrence_witness:
  "handleEnded (app0\<lparr>currentSong := Some songB, isPlaying := True,
        playlistQueue := [songA, songB, songC]\<rparr>)
     = app0\<lparr>currentSong := Some songC, isPlaying := True,
        playlistQueue := [songA, songB, songC]\<rparr>
   \<and> handleEnded (app0\<lparr>currentSong := Some songC, isPlaying := True,
        playlistQueue := [songA, songB, songC]\<rparr>)
     = app0\<lparr>currentSong := Some songC, isPlaying := False,
        playlistQueue := [songA, songB, songC]\<rparr>"
proof -
  have less_2: "(j < (2::nat)) = (j = 0 \<or> j = 1)" for j by auto
  have less_1: "(j < Suc 0) = (j = 0)" for j by auto
  have "handleEnded (app0\<lparr>currentSong := Some songB, isPlaying := True,
        playlistQueue := [songA, songB, songC]\<rparr>)
     = app0\<lparr>currentSong := Some songC, isPlaying := True,
        playlistQueue := [songA, songB, songC]\<rparr>"
    using handleEnded_first_occurrence
      [of "app0\<lparr>currentSong := Some songB, isPlaying := True,
        playlistQueue := [songA, songB, songC]\<rparr>" songB 1]
    by (simp add: app0_def songA_def songB_def songC_def less_1)
  moreover have "handleEnded (app0\<lparr>currentSong := Some songC, isPlaying := True,
        playlistQueue := [songA, songB, songC]\<rparr>)
     = app0\<lparr>currentSong := Some songC, isPlaying := False,
        playlistQueue := [songA, songB, songC]\<rparr>"
    using handleEnded_first_occurrence
      [of "app0\<lparr>currentSong := Some songC, isPlaying := True,
        playlistQueue := [songA, songB, songC]\<rparr>" songC 2]
    by (simp add: app0_def songA_def songB_def songC_def less_2)
  ultimately show ?thesis by simp
qed

section \<open>Search\<close>

text \<open>
  C8, as stated, fails in its second half: a query shorter than 3 code units issues no
  request, but the result set is not cleared. With one result on display, typing the
  two-unit query \<open>ab\<close> leaves that result where it is.
\<close>

theorem onChange_short_query_counterexample:
  "length [97, 98 :: 16 word] < 3
   \<and> onChange [97, 98] (app0\<lparr>searchResults := [songA]\<rparr>)
     = app0\<lparr>searchQuery := [97, 98], searchResults := [songA]\<rparr>
   \<and> searchResults (onChange [97, 98] (app0\<lparr>searchResults := [songA]\<rparr>)) \<noteq> []"
  by (simp add: onChange_def app0_def)

text \<open>
  C8, amended. For every query shorter than 3 code units the \<open>onChange\<close> handler only
  stores the query: no request is issued, and the visible result set and the searching
  flag stay as they were.
\<close>

theorem onChange_short_query:
  assumes "length v < 3"
  shows "onChange v s = s\<lparr>searchQuery := v\<rparr>
    \<and> requests (onChange v s) = requests s
    \<and> searchResults (onChange v s) = searchResults s
    \<and> isSearching (onChange v s) = isSearching s"
  using assms by (simp add: onChange_def)

theorem onChange_short_query_witness:
  "onChange [97, 98] (app0\<lparr>searchResults := [songA]\<rparr>)
     = app0\<lparr>searchQuery := [97, 98], searchResults := [songA]\<rparr>
   \<and> requests (onChange [97, 98] (app0\<lparr>searchResults := [songA]\<rparr>)) = []"
  using onChange_short_query [of "[97, 98]" "app0\<lparr>searchResults := [songA]\<rparr>"]
  by (simp add: app0_def)

text \<open>
  C9, as stated, fails: a search whose fetch fails settles with the result set it found,
  not with an empty one. With one result on display, a failed search for \<open>abc\<close> leaves
  that result on display.
\<close>

theorem performSearch_failure_counterexample:
  "performSearch FetchFailed [97, 98, 99] (app0\<lparr>searchResults := [songA]\<rparr>)
     = app0\<lparr>searchResults := [songA], isSearching := False, console_errors := 1,
            requests := [[97, 98, 99]]\<rparr>
   \<and> searchResults (performSearch FetchFailed [97, 98, 99] (app0\<lparr>searchResults := [songA]\<rparr>)) \<noteq> []"
  by (simp add: performSearch_def performSearch_start_def performSearch_settle_def app0_def
      isHighSurrogate_def isLowSurrogate_def)

text \<open>
  C9, amended. A search whose fetch fails leaves the searching phase with the visible
  result set unchanged (empty only if it was empty before); the failure is logged with
  \<open>console.error\<close>, no alert is raised and no dialog is opened. The same holds for the
  continuation alone, whatever happened between the dispatch and the failure.
\<close>

theorem performSearch_failure_keeps_results:
  "isSearching (performSearch FetchFailed q s) = False
   \<and> searchResults (performSearch FetchFailed q s) = searchResults s
   \<and> console_errors (performSearch FetchFailed q s) = Suc (console_errors s)
   \<and> alerts (performSearch FetchFailed q s) = alerts s
   \<and> authModalOpen (performSearch FetchFailed q s) = authModalOpen s
   \<and> isSearching (performSearch_settle FetchFailed s) = False
   \<and> searchResults (performSearch_settle FetchFailed s) = searchResults s"
  by (simp add: performSearch_def performSearch_start_def performSearch_settle_def)

text \<open>
  C3, as stated, fails: no reply is discarded. The queries \<open>abc\<close> and \<open>abcd\<close> are
  dispatched in this order (sequence numbers 0 and 1); the reply to \<open>abcd\<close> arrives
  first and the reply to \<open>abc\<close> second. The visible result set is then that of the
  earlier dispatch.
\<close>

theorem run_stale_response_counterexample:
  "requests (run [Change [97, 98, 99], Change [97, 98, 99, 100]] app0)
     = [[97, 98, 99], [97, 98, 99, 100]]
   \<and> searchResults (run [Change [97, 98, 99], Change [97, 98, 99, 100],
        Response 1 (Json (Some [apiB])), Response 0 (Json (Some [apiA]))] app0)
     = [mapSong apiA]
   \<and> mapSong apiA \<noteq> mapSong apiB"
  by (simp add: run_def onChange_def performSearch_start_def performSearch_settle_def
      app0_def mapSong_def apiA_def apiB_def isHighSurrogate_def isLowSurrogate_def)

text \<open>
  C3, amended. Replies are applied in their order of arrival, whatever their dispatch
  sequence number \<open>k\<close>: after any history, a reply that carries songs replaces the
  visible result set by its songs, a reply without songs empties it, and a failed fetch
  leaves it as it was. So the reply that arrives last decides the visible result set.
\<close>

theorem run_last_response_applied:
  "searchResults (run (evs @ [Response k (Json (Some sgs))]) s) = map mapSong sgs
   \<and> searchResults (run (evs @ [Response k (Json None)]) s) = []
   \<and> searchResults (run (evs @ [Response k FetchFailed]) s) = searchResults (run evs s)"
  by (simp add: run_def performSearch_settle_def)

section \<open>The verification gate\<close>

text \<open>
  C1, as stated, fails for \<open>deletePlaylist\<close> and \<open>addSongToPlaylist\<close>: neither checks
  the session. With nobody signed in, the delete handler, run on a state that holds a
  playlist, deletes the row and drops the playlist from the state, and opens no dialog;
  only the view, which renders no delete icon then, keeps it from running. The two
  \<open>dbService\<close> functions take no session and succeed.
\<close>

theorem ungated_delete_counterexample:
  "\<not> isVerified (app0\<lparr>playlists := [plX]\<rparr>)
   \<and> user (app0\<lparr>playlists := [plX]\<rparr>) = None
   \<and> onClickDelete True NetOk plX (app0\<lparr>playlists := [plX]\<rparr>, dbX) = (app0, db0)
   \<and> deletePlaylist NetOk 1 dbX = Inr db0
   \<and> addSongToPlaylist NetOk 1 songA dbX
     = Inr (dbX\<lparr>tbl_playlist_songs := [\<lparr>ps_id = 1, ps_playlist = 1, ps_song = songA\<rparr>]\<rparr>)"
  by (simp add: isVerified_def onClickDelete_def deletePlaylist_def addSongToPlaylist_def
      fresh_id_def app0_def plX_def dbX_def db0_def)

text \<open>
  C1, amended. In every state that is not verified (nobody signed in, or a user whose
  email is not confirmed), \<open>toggleLike\<close> and \<open>createNewPlaylist\<close> leave the store,
  \<open>likedSongs\<close> and \<open>playlists\<close> unchanged, and \<open>toggleLike\<close> makes no call to the
  store; with nobody signed in they open the sign-in dialog, with an unconfirmed user
  they show an alert asking to verify the email. No error value is raised. Deleting a
  playlist is gated by the view only: in such a state no delete icon is rendered.
\<close>

theorem gated_handlers_not_verified:
  assumes "\<not> isVerified s"
  shows "toggleLike sel wr sg (s, d) =
      (if user s = None then s\<lparr>authModalOpen := True\<rparr>
       else s\<lparr>alerts := alerts s @ [msg_verify_like]\<rparr>, d)
    \<and> createNewPlaylist answer n (s, d) =
      (if user s = None then s\<lparr>authModalOpen := True\<rparr>
       else s\<lparr>alerts := alerts s @ [msg_verify_playlist]\<rparr>, d)
    \<and> snd (toggleLike_begin sg s) = None
    \<and> likedSongs (fst (toggleLike sel wr sg (s, d))) = likedSongs s
    \<and> playlists (fst (toggleLike sel wr sg (s, d))) = playlists s
    \<and> likedSongs (fst (createNewPlaylist answer n (s, d))) = likedSongs s
    \<and> playlists (fst (createNewPlaylist answer n (s, d))) = playlists s
    \<and> deleteControls s = []"
  using assms
  by (cases "user s")
     (simp_all add: isVerified_def toggleLike_def toggleLike_begin_def createNewPlaylist_def
        deleteControls_def)

theorem gated_handlers_not_verified_witness:
  "toggleLike NetOk NetOk songA (app0, db0) = (app0\<lparr>authModalOpen := True\<rparr>, db0)
   \<and> createNewPlaylist (Some [80]) NetOk (app0, db0) = (app0\<lparr>authModalOpen := True\<rparr>, db0)
   \<and> toggleLike NetOk NetOk songA (app0\<lparr>user := Some userU\<rparr>, db0)
     = (app0\<lparr>user := Some userU, alerts := [msg_verify_like]\<rparr>, db0)
   \<and> createNewPlaylist (Some [80]) NetOk (app0\<lparr>user := Some userU\<rparr>, db0)
     = (app0\<lparr>user := Some userU, alerts := [msg_verify_playlist]\<rparr>, db0)"
proof -
  have "toggleLike NetOk NetOk songA (app0, db0) = (app0\<lparr>authModalOpen := True\<rparr>, db0)
   \<and> createNewPlaylist (Some [80]) NetOk (app0, db0) = (app0\<lparr>authModalOpen := True\<rparr>, db0)"
    using gated_handlers_not_verified [of app0 NetOk NetOk songA db0 "Some [80]" NetOk]
    by (simp add: isVerified_def app0_def)
  moreover have "toggleLike NetOk NetOk songA (app0\<lparr>user := Some userU\<rparr>, db0)
     = (app0\<lparr>user := Some userU, alerts := [msg_verify_like]\<rparr>, db0)
   \<and> createNewPlaylist (Some [80]) NetOk (app0\<lparr>user := Some userU\<rparr>, db0)
     = (app0\<lparr>user := Some userU, alerts := [msg_verify_playlist]\<rparr>, db0)"
    using gated_handlers_not_verified
      [of "app0\<lparr>user := Some userU\<rparr>" NetOk NetOk songA db0 "Some [80]" NetOk]
    by (simp add: isVerified_def app0_def userU_def)
  ultimately show ?thesis by simp
qed

section \<open>Liking a track\<close>

text \<open>Auxiliary facts about \<open>isLiked\<close> and about one successful toggle.\<close>

lemma single_length_one: "length xs = 1 \<Longrightarrow> \<exists>r. xs = [r] \<and> single xs = Some r"
  by (cases xs) (auto simp: length_Suc_conv)

lemma isLiked_filter_out: "\<not> isLiked (s\<lparr>likedSongs := filter (\<lambda>x. url x \<noteq> url sg) (likedSongs s)\<rparr>) sg"
  by (simp add: isLiked_def list_ex_iff)

lemma isLiked_prepend: "isLiked (s\<lparr>likedSongs := sg # likedSongs s\<rparr>) sg"
  by (simp add: isLiked_def)

lemma filter_not_liked: "\<not> isLiked s sg \<Longrightarrow> filter (\<lambda>x. url x \<noteq> url sg) (likedSongs s) = likedSongs s"
  by (simp add: isLiked_def list_ex_iff)

lemma toggleLike_verified_ok:
  assumes u: "user s = Some u" and v: "truthy (email_confirmed_at u)"
    and c: "length (liked_matches (uid u) sg d) = (if isLiked s sg then 1 else 0)"
  shows "fst (toggleLike NetOk NetOk sg (s, d)) =
      s\<lparr>likedSongs := (if isLiked s sg then filter (\<lambda>x. url x \<noteq> url sg) (likedSongs s)
                        else sg # likedSongs s)\<rparr>"
    and "length (liked_matches (uid u) sg (snd (toggleLike NetOk NetOk sg (s, d)))) =
      (if isLiked s sg then 0 else 1)"
proof -
  have b: "toggleLike_begin sg s = (s, Some (uid u, sg))"
    using u v by (simp add: toggleLike_begin_def)
  show "fst (toggleLike NetOk NetOk sg (s, d)) =
      s\<lparr>likedSongs := (if isLiked s sg then filter (\<lambda>x. url x \<noteq> url sg) (likedSongs s)
                        else sg # likedSongs s)\<rparr>"
  proof (cases "isLiked s sg")
    case True
    then obtain r where r: "liked_matches (uid u) sg d = [r]"
      using c single_length_one by fastforce
    show ?thesis using True b r
      by (simp add: toggleLike_def toggleLikedSong_def toggleLike_resume_def)
  next
    case False
    then have "liked_matches (uid u) sg d = []" using c by simp
    then show ?thesis using False b
      by (simp add: toggleLike_def toggleLikedSong_def toggleLike_resume_def)
  qed
  show "length (liked_matches (uid u) sg (snd (toggleLike NetOk NetOk sg (s, d)))) =
      (if isLiked s sg then 0 else 1)"
  proof (cases "isLiked s sg")
    case True
    then obtain r where r: "liked_matches (uid u) sg d = [r]"
      using c single_length_one by fastforce
    have "filter (\<lambda>x. lr_user x = uid u \<and> url (lr_song x) = url sg)
            (filter (\<lambda>x. lr_id x \<noteq> lr_id r) (tbl_liked_songs d))
          = filter (\<lambda>x. lr_id x \<noteq> lr_id r) (liked_matches (uid u) sg d)"
      by (simp add: liked_matches_def conj_commute)
    also have "\<dots> = []" using r by simp
    finally show ?thesis using True b r
      by (simp add: toggleLike_def toggleLikedSong_def liked_matches_def)
  next
    case False
    then have e: "liked_matches (uid u) sg d = []" using c by simp
    then have "filter (\<lambda>x. lr_user x = uid u \<and> url (lr_song x) = url sg) (tbl_liked_songs d) = []"
      by (simp add: liked_matches_def)
    then show ?thesis using False b e
      by (simp add: toggleLike_def toggleLikedSong_def liked_matches_def)
  qed
qed

text \<open>
  C2, as stated, fails. At the point where \<open>toggleLike\<close> waits for the store, the call
  has been issued and \<open>likedSongs\<close> is still as before: the track is not a member. And
  when the insert fails (the store is unchanged) the track is added to \<open>likedSongs\<close>
  all the same; nothing is reverted, alerted or logged.
\<close>

theorem toggleLike_not_optimistic_counterexample:
  "toggleLike_begin songA (app0\<lparr>user := Some userV\<rparr>)
     = (app0\<lparr>user := Some userV\<rparr>, Some (uid userV, songA))
   \<and> likedSongs (app0\<lparr>user := Some userV\<rparr>) = []
   \<and> toggleLike NetOk NetErr songA (app0\<lparr>user := Some userV\<rparr>, db0)
     = (app0\<lparr>user := Some userV, likedSongs := [songA]\<rparr>, db0)"
  by (simp add: toggleLike_def toggleLike_begin_def toggleLikedSong_def toggleLike_resume_def
      liked_matches_def app0_def userV_def db0_def)

text \<open>
  C2, amended. For a verified user, \<open>toggleLike\<close> first calls the store and leaves
  \<open>likedSongs\<close> untouched while it waits. When the lookup and the write succeed, and the
  store holds one row for the track exactly when the track is in \<open>likedSongs\<close>, the
  local change follows: the track is filtered out by url if it was liked and prepended
  if it was not. Membership is flipped, locally and in the store.
\<close>

theorem toggleLike_remote_then_local:
  assumes "user s = Some u" and "truthy (email_confirmed_at u)"
    and "length (liked_matches (uid u) sg d) = (if isLiked s sg then 1 else 0)"
  shows "toggleLike_begin sg s = (s, Some (uid u, sg))
    \<and> fst (toggleLike NetOk NetOk sg (s, d)) =
        s\<lparr>likedSongs := (if isLiked s sg then filter (\<lambda>x. url x \<noteq> url sg) (likedSongs s)
                          else sg # likedSongs s)\<rparr>
    \<and> isLiked (fst (toggleLike NetOk NetOk sg (s, d))) sg = (\<not> isLiked s sg)
    \<and> length (liked_matches (uid u) sg (snd (toggleLike NetOk NetOk sg (s, d)))) =
        (if isLiked s sg then 0 else 1)"
proof -
  have "toggleLike_begin sg s = (s, Some (uid u, sg))"
    using assms(1,2) by (simp add: toggleLike_begin_def)
  moreover note toggleLike_verified_ok [OF assms]
  moreover have "isLiked (fst (toggleLike NetOk NetOk sg (s, d))) sg = (\<not> isLiked s sg)"
    using toggleLike_verified_ok(1) [OF assms] isLiked_filter_out [where s = s and sg = sg] isLiked_prepend [where s = s and sg = sg]
    by (cases "isLiked s sg") simp_all
  ultimately show ?thesis by simp
qed

theorem toggleLike_remote_then_local_witness:
  "toggleLike_begin songB (app0\<lparr>user := Some userV, likedSongs := [songA, songB]\<rparr>)
     = (app0\<lparr>user := Some userV, likedSongs := [songA, songB]\<rparr>, Some ([117, 49], songB))
   \<and> fst (toggleLike NetOk NetOk songB (app0\<lparr>user := Some userV, likedSongs := [songA, songB]\<rparr>, dbAB))
     = app0\<lparr>user := Some userV, likedSongs := [songA]\<rparr>
   \<and> fst (toggleLike NetOk NetOk songC (app0\<lparr>user := Some userV, likedSongs := [songA, songB]\<rparr>, dbAB))
     = app0\<lparr>user := Some userV, likedSongs := [songC, songA, songB]\<rparr>"
proof -
  have "fst (toggleLike NetOk NetOk songB (app0\<lparr>user := Some userV, likedSongs := [songA, songB]\<rparr>, dbAB))
     = app0\<lparr>user := Some userV, likedSongs := [songA]\<rparr>
    \<and> toggleLike_begin songB (app0\<lparr>user := Some userV, likedSongs := [songA, songB]\<rparr>)
     = (app0\<lparr>user := Some userV, likedSongs := [songA, songB]\<rparr>, Some ([117, 49], songB))"
    using toggleLike_remote_then_local
      [of "app0\<lparr>user := Some userV, likedSongs := [songA, songB]\<rparr>" userV songB dbAB]
    by (simp add: app0_def userV_def dbAB_def db0_def songA_def songB_def isLiked_def
        liked_matches_def)
  moreover have "fst (toggleLike NetOk NetOk songC (app0\<lparr>user := Some userV, likedSongs := [songA, songB]\<rparr>, dbAB))
     = app0\<lparr>user := Some userV, likedSongs := [songC, songA, songB]\<rparr>"
    using toggleLike_remote_then_local
      [of "app0\<lparr>user := Some userV, likedSongs := [songA, songB]\<rparr>" userV songC dbAB]
    by (simp add: app0_def userV_def dbAB_def db0_def songA_def songB_def songC_def isLiked_def
        liked_matches_def)
  ultimately show ?thesis by simp
qed

text \<open>
  C4, as stated, fails for a liked track that is not at the head of the list: from
  \<open>[A, B]\<close>, toggling \<open>B\<close> twice, with every request succeeding, gives \<open>[B, A]\<close>.
\<close>

theorem toggleLike_twice_order_counterexample:
  "likedSongs (app0\<lparr>user := Some userV, likedSongs := [songA, songB]\<rparr>) = [songA, songB]
   \<and> fst (toggleLike NetOk NetOk songB
        (toggleLike NetOk NetOk songB (app0\<lparr>user := Some userV, likedSongs := [songA, songB]\<rparr>, dbAB)))
     = app0\<lparr>user := Some userV, likedSongs := [songB, songA]\<rparr>"
  by (simp add: toggleLike_def toggleLike_begin_def toggleLikedSong_def toggleLike_resume_def
      liked_matches_def fresh_id_def app0_def userV_def dbAB_def db0_def songA_def songB_def)

text \<open>
  C4, amended. For a verified user, with every request succeeding and the store holding
  one row for the track exactly when the track is in \<open>likedSongs\<close>, toggling a track
  twice restores its membership. It restores the list when the track was not liked;
  when it was liked, the track ends up at the head and the other tracks keep their
  order, so the list is restored only if the track was its head.
\<close>

theorem toggleLike_twice:
  assumes "user s = Some u" and "truthy (email_confirmed_at u)"
    and "length (liked_matches (uid u) sg d) = (if isLiked s sg then 1 else 0)"
  shows "isLiked (fst (toggleLike NetOk NetOk sg (toggleLike NetOk NetOk sg (s, d)))) sg = isLiked s sg
    \<and> likedSongs (fst (toggleLike NetOk NetOk sg (toggleLike NetOk NetOk sg (s, d)))) =
        (if isLiked s sg then sg # filter (\<lambda>x. url x \<noteq> url sg) (likedSongs s)
         else likedSongs s)"
proof -
  define s1 where "s1 = fst (toggleLike NetOk NetOk sg (s, d))"
  define d1 where "d1 = snd (toggleLike NetOk NetOk sg (s, d))"
  have pair: "toggleLike NetOk NetOk sg (s, d) = (s1, d1)"
    by (simp add: s1_def d1_def)
  have s1: "s1 = s\<lparr>likedSongs := (if isLiked s sg then filter (\<lambda>x. url x \<noteq> url sg) (likedSongs s)
                        else sg # likedSongs s)\<rparr>"
    unfolding s1_def by (rule toggleLike_verified_ok(1) [OF assms])
  have flip: "isLiked s1 sg = (\<not> isLiked s sg)"
    using s1 isLiked_filter_out [where s = s and sg = sg] isLiked_prepend [where s = s and sg = sg]
    by (cases "isLiked s sg") simp_all
  have u1: "user s1 = Some u" using s1 assms(1) by simp
  have c1: "length (liked_matches (uid u) sg d1) = (if isLiked s1 sg then 1 else 0)"
    unfolding d1_def using toggleLike_verified_ok(2) [OF assms] flip by simp
  have s2: "fst (toggleLike NetOk NetOk sg (s1, d1)) =
      s1\<lparr>likedSongs := (if isLiked s1 sg then filter (\<lambda>x. url x \<noteq> url sg) (likedSongs s1)
                         else sg # likedSongs s1)\<rparr>"
    by (rule toggleLike_verified_ok(1) [OF u1 assms(2) c1])
  show ?thesis
  proof (cases "isLiked s sg")
    case True
    then have "\<not> isLiked s1 sg" using flip by simp
    then show ?thesis using True s2 s1 pair by (simp add: isLiked_def)
  next
    case False
    then have "isLiked s1 sg" using flip by simp
    then show ?thesis using False s2 s1 pair filter_not_liked [where s = s and sg = sg]
      by (simp add: isLiked_def)
  qed
qed

theorem toggleLike_twice_witness:
  "likedSongs (fst (toggleLike NetOk NetOk songC
        (toggleLike NetOk NetOk songC (app0\<lparr>user := Some userV, likedSongs := [songA, songB]\<rparr>, dbAB))))
     = [songA, songB]
   \<and> likedSongs (fst (toggleLike NetOk NetOk songA
        (toggleLike NetOk NetOk songA (app0\<lparr>user := Some userV, likedSongs := [songA, songB]\<rparr>, dbAB))))
     = [songA, songB]"
proof -
  have "likedSongs (fst (toggleLike NetOk NetOk songC
        (toggleLike NetOk NetOk songC (app0\<lparr>user := Some userV, likedSongs := [songA, songB]\<rparr>, dbAB))))
     = [songA, songB]"
    using toggleLike_twice
      [of "app0\<lparr>user := Some userV, likedSongs := [songA, songB]\<rparr>" userV songC dbAB]
    by (simp add: app0_def userV_def dbAB_def db0_def songA_def songB_def songC_def isLiked_def
        liked_matches_def)
  moreover have "likedSongs (fst (toggleLike NetOk NetOk songA
        (toggleLike NetOk NetOk songA (app0\<lparr>user := Some userV, likedSongs := [songA, songB]\<rparr>, dbAB))))
     = [songA, songB]"
    using toggleLike_twice
      [of "app0\<lparr>user := Some userV, likedSongs := [songA, songB]\<rparr>" userV songA dbAB]
    by (simp add: app0_def userV_def dbAB_def db0_def songA_def songB_def isLiked_def
        liked_matches_def)
  ultimately show ?thesis by simp
qed

section \<open>Synchronisation\<close>

text \<open>
  C7, as stated, fails. The store holds a profile and one liked song for the user. When
  the fetch of the liked songs fails, \<open>fetchData\<close> ends in a state with the new profile
  and an empty list of liked songs. When every fetch succeeds, the component still goes
  through a state with the new profile and the old liked songs.
\<close>

theorem fetchData_partial_counterexample:
  "fetchData NetOk NetOk NetErr NetOk userV (app0\<lparr>user := Some userV\<rparr>, db1)
     = ([app0\<lparr>user := Some userV, profile := Some prof1\<rparr>,
         app0\<lparr>user := Some userV, profile := Some prof1, console_errors := 1\<rparr>], db1)
   \<and> getLikedSongs NetOk (uid userV) db1 = Inr [songA]
   \<and> likedSongs (app0\<lparr>user := Some userV, profile := Some prof1, console_errors := 1\<rparr>) = []
   \<and> fst (fetchData NetOk NetOk NetOk NetOk userV (app0\<lparr>user := Some userV\<rparr>, db1))
     = [app0\<lparr>user := Some userV, profile := Some prof1\<rparr>,
        app0\<lparr>user := Some userV, profile := Some prof1, likedSongs := [songA]\<rparr>,
        app0\<lparr>user := Some userV, profile := Some prof1, likedSongs := [songA]\<rparr>]"
  by (simp add: Let_def fetchData_def getProfile_def getLikedSongs_def getPlaylists_def logSyncFailure_def
      app0_def userV_def db1_def db0_def prof1_def)

text \<open>
  C7, amended. For every sync, \<open>fetchData\<close> takes as the profile the user's row or,
  if the store has none, a newly built one that it first upserts. If the profile fetch
  or that upsert fails, the failure is logged and nothing is replaced. Otherwise it
  replaces the profile, the liked songs and the playlists one after the other, each
  after its own fetch, and each intermediate state is rendered. A fetch that fails is
  logged and ends the function: what was replaced before stays replaced, the rest
  stays as it was.
\<close>

theorem fetchData_stepwise:
  "\<exists>found dNew prof d1 liked pls.
      getProfile NetOk (uid u) d = Inr found
    \<and> upsertProfile NetOk (newProfile u) d = Inr dNew
    \<and> prof = (case found of Some p \<Rightarrow> p | None \<Rightarrow> newProfile u)
    \<and> d1 = (case found of Some p \<Rightarrow> d | None \<Rightarrow> dNew)
    \<and> getLikedSongs NetOk (uid u) d1 = Inr liked
    \<and> getPlaylists NetOk (uid u) d1 = Inr pls
    \<and> fetchData NetErr n2 n3 n4 u (s, d) = ([logSyncFailure s], d)
    \<and> (found = None \<longrightarrow> fetchData NetOk NetErr n3 n4 u (s, d) = ([logSyncFailure s], d))
    \<and> (found \<noteq> None \<or> n2 = NetOk \<longrightarrow>
          fetchData NetOk n2 NetErr n4 u (s, d)
            = ([s\<lparr>profile := Some prof\<rparr>, logSyncFailure (s\<lparr>profile := Some prof\<rparr>)], d1)
        \<and> fetchData NetOk n2 NetOk NetErr u (s, d)
            = ([s\<lparr>profile := Some prof\<rparr>, s\<lparr>profile := Some prof, likedSongs := liked\<rparr>,
                logSyncFailure (s\<lparr>profile := Some prof, likedSongs := liked\<rparr>)], d1)
        \<and> fetchData NetOk n2 NetOk NetOk u (s, d)
            = ([s\<lparr>profile := Some prof\<rparr>, s\<lparr>profile := Some prof, likedSongs := liked\<rparr>,
                s\<lparr>profile := Some prof, likedSongs := liked, playlists := pls\<rparr>], d1))"
proof (cases "single (filter (\<lambda>p. prof_id p = uid u) (tbl_profiles d))")
  case None
  then show ?thesis
    by (simp add: Let_def fetchData_def getProfile_def upsertProfile_def getLikedSongs_def
        getPlaylists_def)
next
  case (Some p)
  then show ?thesis
    by (simp add: Let_def fetchData_def getProfile_def upsertProfile_def getLikedSongs_def
        getPlaylists_def)
qed

theorem fetchData_stepwise_witness:
  "fetchData NetOk NetOk NetOk NetErr userV (app0\<lparr>user := Some userV\<rparr>, dbNoProfile)
     = ([app0\<lparr>user := Some userV, profile := Some prof1\<rparr>,
         app0\<lparr>user := Some userV, profile := Some prof1, likedSongs := [songB, songA]\<rparr>,
         app0\<lparr>user := Some userV, profile := Some prof1, likedSongs := [songB, songA],
              console_errors := 1\<rparr>], dbNoProfile\<lparr>tbl_profiles := [prof1]\<rparr>)
   \<and> fetchData NetOk NetErr NetOk NetOk userV (app0\<lparr>user := Some userV\<rparr>, dbNoProfile)
     = ([app0\<lparr>user := Some userV, console_errors := 1\<rparr>], dbNoProfile)
   \<and> fetchData NetOk NetErr NetOk NetOk userV (app0\<lparr>user := Some userV\<rparr>, dbFull)
     = ([app0\<lparr>user := Some userV, profile := Some prof1\<rparr>,
         app0\<lparr>user := Some userV, profile := Some prof1, likedSongs := [songA]\<rparr>,
         app0\<lparr>user := Some userV, profile := Some prof1, likedSongs := [songA],
              playlists := [plX\<lparr>songs := [songB]\<rparr>]\<rparr>], dbFull)"
proof -
  have "fetchData NetOk NetOk NetOk NetErr userV (app0\<lparr>user := Some userV\<rparr>, dbNoProfile)
     = ([app0\<lparr>user := Some userV, profile := Some prof1\<rparr>,
         app0\<lparr>user := Some userV, profile := Some prof1, likedSongs := [songB, songA]\<rparr>,
         app0\<lparr>user := Some userV, profile := Some prof1, likedSongs := [songB, songA],
              console_errors := 1\<rparr>], dbNoProfile\<lparr>tbl_profiles := [prof1]\<rparr>)"
    using fetchData_stepwise [of userV dbNoProfile NetOk NetOk NetOk "app0\<lparr>user := Some userV\<rparr>"]
    by (simp add: Let_def getProfile_def upsertProfile_def getLikedSongs_def getPlaylists_def
        newProfile_def logSyncFailure_def app0_def userV_def dbNoProfile_def db0_def prof1_def)
  moreover have "fetchData NetOk NetErr NetOk NetOk userV (app0\<lparr>user := Some userV\<rparr>, dbNoProfile)
     = ([app0\<lparr>user := Some userV, console_errors := 1\<rparr>], dbNoProfile)"
    using fetchData_stepwise [of userV dbNoProfile NetErr NetOk NetOk "app0\<lparr>user := Some userV\<rparr>"]
    by (simp add: Let_def getProfile_def upsertProfile_def getLikedSongs_def getPlaylists_def
        newProfile_def logSyncFailure_def app0_def userV_def dbNoProfile_def db0_def prof1_def)
  moreover have "fetchData NetOk NetErr NetOk NetOk userV (app0\<lparr>user := Some userV\<rparr>, dbFull)
     = ([app0\<lparr>user := Some userV, profile := Some prof1\<rparr>,
         app0\<lparr>user := Some userV, profile := Some prof1, likedSongs := [songA]\<rparr>,
         app0\<lparr>user := Some userV, profile := Some prof1, likedSongs := [songA],
              playlists := [plX\<lparr>songs := [songB]\<rparr>]\<rparr>], dbFull)"
    using fetchData_stepwise [of userV dbFull NetErr NetOk NetOk "app0\<lparr>user := Some userV\<rparr>"]
    by (simp add: Let_def getProfile_def upsertProfile_def getLikedSongs_def getPlaylists_def
        newProfile_def logSyncFailure_def app0_def userV_def dbFull_def db1_def db0_def prof1_def
        plX_def)
  ultimately show ?thesis by simp
qed

end
